theory Spec2Isabelle
  imports Main
begin

section \<open>Filter registration and predicate compilation of \<open>BaseEntity\<close>\<close>

text \<open>
  The development embeds the two methods of \<^verbatim>\<open>src/storage/entities/base_entity.js\<close>
  that carry logic: \<^verbatim>\<open>addFilter\<close>, which expands one filter declaration into a family
  of named predicate templates stored in \<^verbatim>\<open>this.filters\<close>, and \<^verbatim>\<open>parseFilters\<close>,
  which resolves the keys of the caller's criteria against that object and joins the
  templates into one clause. A JavaScript object used as a dictionary is a map from
  property names to values, a property that is absent reads as \<^verbatim>\<open>undefined\<close>
  (\<open>None\<close>), a thrown exception is the left injection of a sum, and mutation of
  \<^verbatim>\<open>this\<close> is explicit state passing. The map holds the object's own properties;
  what the object inherits from \<^verbatim>\<open>Object.prototype\<close> is modelled beside it, because
  \<^verbatim>\<open>this.filters\<close> is created as the literal \<^verbatim>\<open>{}\<close> and is read and written with
  plain property access.
\<close>

subsection \<open>Data model\<close>

text \<open>
  Modelled from the spec: the module \<^verbatim>\<open>./filter_types\<close> required by the source is
  not part of the sources at hand; it supplies the four constants the \<^verbatim>\<open>switch\<close> of
  \<^verbatim>\<open>addFilter\<close> compares against. \<open>OtherType s\<close> stands for any other value a caller
  may pass as the type (for instance the string \<^verbatim>\<open>"DATE"\<close>), i.e. for a value that is
  equal to none of the four constants.
\<close>

datatype filterType = BOOLEAN | TEXT | NUMBER | BINARY | OtherType string

text \<open>
  The two error classes the source imports from \<^verbatim>\<open>../errors\<close>. The second is
  constructed with the offending type.
\<close>

datatype error = ImplementationPendingError | NonSupportedFilterTypeError filterType

text \<open>The \<^verbatim>\<open>options\<close> argument; \<open>None\<close> is a missing \<^verbatim>\<open>realName\<close> property.\<close>

record options =
  realName :: "string option"

text \<open>
  The entity. Of the three fields the constructor initialises only \<^verbatim>\<open>filters\<close> is
  read or written by the methods embedded here.
\<close>

record BaseEntity =
  filters :: "string \<rightharpoonup> string"

definition new_BaseEntity :: BaseEntity where
  "new_BaseEntity = \<lparr>filters = Map.empty\<rparr>"

definition noOptions :: options where
  "noOptions = \<lparr>realName = None\<rparr>"

text \<open>Values a caller can put into criteria; the compiler never inspects them.\<close>

datatype jsvalue = JNull | JBool bool | JNum int | JStr string | JArr "jsvalue list"

text \<open>
  A criteria object is represented by its own enumerable properties in the order in which
  \<^verbatim>\<open>Object.keys\<close> lists them, which for keys that are not array indices is the order
  in which the caller wrote them. The argument of \<^verbatim>\<open>parseFilters\<close> is an array of such
  objects, one such object, or a value that is neither (a primary key given as a string,
  \<^verbatim>\<open>undefined\<close>), for which both tests of the method are false.
\<close>

type_synonym filterObject = "(string \<times> jsvalue) list"

datatype criteria = Group filterObject | GroupList "filterObject list" | NotAnObject

subsection \<open>Property access on a plain object\<close>

text \<open>
  What a read of \<^verbatim>\<open>this.filters[key]\<close> can yield: \<^verbatim>\<open>undefined\<close>, a template string
  stored by \<^verbatim>\<open>addFilter\<close>, one of the built-in functions that every plain object
  inherits (identified by the function's name), or, under the name \<^verbatim>\<open>__proto__\<close>, the
  prototype object itself.
\<close>

datatype propertyValue = Undefined | Str string | NativeFunction string | ObjectPrototype

text \<open>
  The properties of the standard \<^verbatim>\<open>Object.prototype\<close>. All of them are writable data
  properties holding functions, except \<^verbatim>\<open>__proto__\<close>, which is an accessor: its getter
  returns the prototype of the object it is read on, here \<^verbatim>\<open>Object.prototype\<close>.
\<close>

definition objectPrototype :: "string \<Rightarrow> propertyValue" where
  "objectPrototype name =
     (if name = ''__proto__'' then ObjectPrototype
      else if name = ''constructor'' then NativeFunction ''Object''
      else if name \<in> set [''__defineGetter__'', ''__defineSetter__'', ''hasOwnProperty'',
                           ''__lookupGetter__'', ''__lookupSetter__'', ''isPrototypeOf'',
                           ''propertyIsEnumerable'', ''toString'', ''valueOf'',
                           ''toLocaleString'']
           then NativeFunction name
      else Undefined)"

text \<open>
  The read \<^verbatim>\<open>this.filters[key]\<close>: an own property wins, otherwise the lookup
  continues in the prototype.
\<close>

definition filterProperty :: "(string \<rightharpoonup> string) \<Rightarrow> string \<Rightarrow> propertyValue" where
  "filterProperty fs key = (case fs key of Some template \<Rightarrow> Str template | None \<Rightarrow> objectPrototype key)"

subsection \<open>\<^verbatim>\<open>addFilter\<close>\<close>

text \<open>
  The assignment \<^verbatim>\<open>this.filters[filterAlias] = condition\<close>. It creates or overwrites
  an own property, with one exception: on an object that has no own property
  \<^verbatim>\<open>__proto__\<close> the assignment to that name runs the setter inherited from
  \<^verbatim>\<open>Object.prototype\<close>, which ignores a value that is a string, so nothing is stored.
\<close>

definition setFilter :: "string \<Rightarrow> string \<Rightarrow> BaseEntity \<Rightarrow> BaseEntity" where
  "setFilter filterAlias condition e =
     (if filterAlias = ''__proto__'' \<and> filters e filterAlias = None then e
      else e\<lparr>filters := (filters e)(filterAlias \<mapsto> condition)\<rparr>)"

text \<open>
  \<^verbatim>\<open>options.realName || filterName\<close>: a missing and an empty \<^verbatim>\<open>realName\<close> are both
  falsy and fall back to the filter's name.
\<close>

definition fieldNameOf :: "options \<Rightarrow> string \<Rightarrow> string" where
  "fieldNameOf opts filterName =
     (case realName opts of
        None \<Rightarrow> filterName
      | Some r \<Rightarrow> if r = [] then filterName else r)"

text \<open>
  The second argument is \<open>None\<close> when the caller omits it (or passes
  \<^verbatim>\<open>undefined\<close>); the parameter default then applies. The result pairs what the call
  returns or throws with the entity as the call leaves it.
\<close>

definition addFilter ::
  "string \<Rightarrow> filterType option \<Rightarrow> options \<Rightarrow> BaseEntity \<Rightarrow> (error + unit) \<times> BaseEntity" where
  \<open>addFilter filterName filterTypeArg opts e =
     (let filterType = (case filterTypeArg of None \<Rightarrow> NUMBER | Some t \<Rightarrow> t);
          fieldName = fieldNameOf opts filterName
      in case filterType of
        BOOLEAN \<Rightarrow>
          (let e1 = setFilter filterName
                      (''"'' @ fieldName @ ''" = ${'' @ filterName @ ''}'') e;
               e2 = setFilter (filterName @ ''_eql'')
                      (''"'' @ fieldName @ ''" = ${'' @ filterName @ ''}'') e1;
               e3 = setFilter (filterName @ ''_neql'')
                      (''"'' @ fieldName @ ''" <> ${'' @ filterName @ ''}'') e2
           in (Inr (), e3))
      | TEXT \<Rightarrow>
          (let e1 = setFilter filterName
                      (''"'' @ fieldName @ ''" = ${'' @ filterName @ ''}'') e;
               e2 = setFilter (filterName @ ''_eql'')
                      (''"'' @ fieldName @ ''" = ${'' @ filterName @ ''}'') e1;
               e3 = setFilter (filterName @ ''_neql'')
                      (''"'' @ fieldName @ ''" <> ${'' @ filterName @ ''}'') e2;
               e4 = setFilter (filterName @ ''_in'')
                      (''"'' @ filterName @ ''" IN (${'' @ filterName @ ''_in:csv})'') e3;
               e5 = setFilter (filterName @ ''_like'')
                      (''"'' @ filterName @ ''" LIKE ${'' @ filterName @ ''_like}'') e4
           in (Inr (), e5))
      | NUMBER \<Rightarrow>
          (let e1 = setFilter filterName
                      (''"'' @ fieldName @ ''" = ${'' @ filterName @ ''}'') e;
               e2 = setFilter (filterName @ ''_eql'')
                      (''"'' @ fieldName @ ''" = ${'' @ filterName @ ''}'') e1;
               e3 = setFilter (filterName @ ''_neql'')
                      (''"'' @ fieldName @ ''" <> ${'' @ filterName @ ''}'') e2;
               e4 = setFilter (filterName @ ''_gt'')
                      (''"'' @ fieldName @ ''" > ${'' @ filterName @ ''}'') e3;
               e5 = setFilter (filterName @ ''_gte'')
                      (''"'' @ fieldName @ ''" >= ${'' @ filterName @ ''}'') e4;
               e6 = setFilter (filterName @ ''_lt'')
                      (''"'' @ fieldName @ ''" < ${'' @ filterName @ ''}'') e5;
               e7 = setFilter (filterName @ ''_lte'')
                      (''"'' @ fieldName @ ''" <= ${'' @ filterName @ ''}'') e6;
               e8 = setFilter (filterName @ ''_in'')
                      (''"'' @ filterName @ ''" IN (${'' @ filterName @ ''_in:csv})'') e7
           in (Inr (), e8))
      | BINARY \<Rightarrow>
          (let e1 = setFilter filterName
                      (''"'' @ fieldName @ ''" = DECODE(${'' @ filterName @ ''}, 'hex')'') e;
               e2 = setFilter (filterName @ ''_eql'')
                      (''"'' @ fieldName @ ''" = DECODE(${'' @ filterName @ ''}, 'hex')'') e1;
               e3 = setFilter (filterName @ ''_neql'')
                      (''"'' @ fieldName @ ''" <> DECODE(${'' @ filterName @ ''}, 'hex')'') e2
           in (Inr (), e3))
      | OtherType s \<Rightarrow> (Inl (NonSupportedFilterTypeError filterType), e))\<close>

subsection \<open>\<^verbatim>\<open>parseFilters\<close>\<close>

text \<open>
  \<^verbatim>\<open>Array.prototype.join\<close>: the empty array gives the empty string, an element that is
  \<^verbatim>\<open>undefined\<close> contributes the empty string, every other element is converted to a
  string, and the separator stands between every two neighbouring elements. A built-in
  function converts to its source text as Node.js prints it, the prototype object to
  \<^verbatim>\<open>[object Object]\<close>.
\<close>

fun elementString :: "propertyValue \<Rightarrow> string" where
  "elementString Undefined = []"
| "elementString (Str s) = s"
| "elementString (NativeFunction name) = ''function '' @ name @ ''() { [native code] }''"
| "elementString ObjectPrototype = ''[object Object]''"

fun array_join :: "string \<Rightarrow> propertyValue list \<Rightarrow> string" where
  "array_join sep [] = []"
| "array_join sep [x] = elementString x"
| "array_join sep (x # y # ys) = elementString x @ sep @ array_join sep (y # ys)"

text \<open>The inner arrow function: look every key up, join the results with \<^verbatim>\<open>' AND '\<close>.\<close>

definition parseFilterObject :: "(string \<rightharpoonup> string) \<Rightarrow> filterObject \<Rightarrow> string" where
  "parseFilterObject fs object =
     array_join '' AND '' (map (\<lambda>key. filterProperty fs key) (map fst object))"

text \<open>
  The local variable \<^verbatim>\<open>filterString\<close> as it stands before the final test: \<open>None\<close> is
  its initial \<^verbatim>\<open>null\<close>.
\<close>

fun filterString :: "(string \<rightharpoonup> string) \<Rightarrow> criteria \<Rightarrow> string option" where
  "filterString fs (GroupList gs) =
     Some (array_join '' OR '' (map (\<lambda>filterObject. Str (parseFilterObject fs filterObject)) gs))"
| "filterString fs (Group g) = Some (parseFilterObject fs g)"
| "filterString fs NotAnObject = None"

text \<open>
  The adapter is an external collaborator; its method \<^verbatim>\<open>parseQueryComponent\<close> is a
  parameter, which returns a string or throws an exception of its own (\<open>Inl\<close>).
  \<^verbatim>\<open>null\<close> and the empty string are both falsy, and then the method returns the empty
  string without calling the adapter. Otherwise the adapter is called with the clause and
  the caller's criteria; what it throws passes through the method unchanged, and what it
  returns is prefixed with \<^verbatim>\<open>WHERE \<close>. The method has no \<^verbatim>\<open>throw\<close> of its own.
\<close>

definition parseFilters ::
  "(string \<Rightarrow> criteria \<Rightarrow> 'x + string) \<Rightarrow> BaseEntity \<Rightarrow> criteria \<Rightarrow> 'x + string" where
  "parseFilters parseQueryComponent e c =
     (case filterString (filters e) c of
        None \<Rightarrow> Inr []
      | Some s \<Rightarrow>
          if s = [] then Inr []
          else (case parseQueryComponent s c of
                  Inl exception \<Rightarrow> Inl exception
                | Inr fragment \<Rightarrow> Inr (''WHERE '' @ fragment)))"

subsection \<open>What the specification says, for comparison\<close>

text \<open>
  The table of variant names of the specification (section 4.1), as a function of the
  declared type and the filter name \<open>X\<close>. It is written from the specification's
  words and is compared with what \<^verbatim>\<open>addFilter\<close> writes.
\<close>

definition spec_variantNames :: "filterType \<Rightarrow> string \<Rightarrow> string list" where
  "spec_variantNames t X =
     (case t of
        BOOLEAN \<Rightarrow> [X, X @ ''_eql'', X @ ''_neql'']
      | TEXT \<Rightarrow> [X, X @ ''_eql'', X @ ''_neql'', X @ ''_in'', X @ ''_like'']
      | NUMBER \<Rightarrow> [X, X @ ''_eql'', X @ ''_neql'', X @ ''_gt'', X @ ''_gte'', X @ ''_lt'',
                    X @ ''_lte'', X @ ''_in'']
      | BINARY \<Rightarrow> [X, X @ ''_eql'', X @ ''_neql'']
      | OtherType s \<Rightarrow> [])"

text \<open>
  The clause of a list of groups in the specification's words (section 6): every group's
  clause in parentheses, the parenthesised clauses separated by \<^verbatim>\<open> OR \<close>.
\<close>

definition spec_groupListClause :: "string list \<Rightarrow> string" where
  "spec_groupListClause groupClauses =
     array_join '' OR '' (map (\<lambda>c. Str (''('' @ c @ '')'')) groupClauses)"

text \<open>
  Two criteria have the same shape when they agree in everything but the values: the same
  keys in the same order, in the same nesting.
\<close>

fun sameShape :: "criteria \<Rightarrow> criteria \<Rightarrow> bool" where
  "sameShape (Group g) (Group h) = (map fst g = map fst h)"
| "sameShape (GroupList gs) (GroupList hs) = (map (map fst) gs = map (map fst) hs)"
| "sameShape NotAnObject NotAnObject = True"
| "sameShape _ _ = False"

section \<open>Properties\<close>

subsection \<open>Auxiliary facts\<close>

text \<open>
  No variant name with a suffix is \<^verbatim>\<open>__proto__\<close>: that name ends in an underscore,
  the suffixes do not.
\<close>

lemma suffix_neq_proto:
  "s \<noteq> [] \<Longrightarrow> last s \<noteq> CHR ''_'' \<Longrightarrow> X @ s \<noteq> ''__proto__''"
  by (auto dest: arg_cong [where f = last])

lemma variant_neq_proto:
  "X @ ''_eql'' \<noteq> ''__proto__''" "X @ ''_neql'' \<noteq> ''__proto__''"
  "X @ ''_in'' \<noteq> ''__proto__''" "X @ ''_like'' \<noteq> ''__proto__''"
  "X @ ''_gt'' \<noteq> ''__proto__''" "X @ ''_gte'' \<noteq> ''__proto__''"
  "X @ ''_lt'' \<noteq> ''__proto__''" "X @ ''_lte'' \<noteq> ''__proto__''"
  by (simp_all add: suffix_neq_proto)

text \<open>
  The three ways an assignment to \<^verbatim>\<open>this.filters\<close> can go: in general, for a name
  other than \<^verbatim>\<open>__proto__\<close>, and for \<^verbatim>\<open>__proto__\<close> on an object without an own
  property of that name.
\<close>

lemma filters_setFilter:
  "filters (setFilter k v e) =
     (if k = ''__proto__'' \<and> filters e k = None then filters e else (filters e)(k \<mapsto> v))"
  by (auto simp add: setFilter_def)

lemma filters_setFilter_plain:
  "k \<noteq> ''__proto__'' \<Longrightarrow> filters (setFilter k v e) = (filters e)(k \<mapsto> v)"
  by (simp add: setFilter_def)

lemma filters_setFilter_proto:
  "filters e ''__proto__'' = None \<Longrightarrow> filters (setFilter ''__proto__'' v e) = filters e"
  by (simp add: setFilter_def)

lemma base_key_after_setFilter:
  "filters (setFilter X v e) X = (if X = ''__proto__'' \<and> filters e X = None then None else Some v)"
  by (auto simp add: setFilter_def)

lemma dom_setFilter:
  "dom (filters (setFilter k v e)) = ({k} - {''__proto__''}) \<union> dom (filters e)"
  by (auto simp add: setFilter_def split: if_splits)

lemmas addFilter_eval = addFilter_def Let_def filters_setFilter_plain fieldNameOf_def noOptions_def
  new_BaseEntity_def parseFilterObject_def parseFilters_def filterProperty_def
  objectPrototype_def

text \<open>
  Joining strings: the first one, then each further one behind its own copy of the
  separator. Only the strings the elements convert to matter to the join.
\<close>

lemma array_join_Str:
  "array_join sep (map Str (t # ts)) = t @ concat (map (\<lambda>u. sep @ u) ts)"
  by (induction ts arbitrary: t) simp_all

lemma array_join_cong_elementString:
  "map elementString xs = map elementString ys \<Longrightarrow> array_join sep xs = array_join sep ys"
  by (induction sep xs arbitrary: ys rule: array_join.induct) (auto simp: map_eq_Cons_conv)

lemma array_join_snoc:
  "array_join sep (xs @ [x]) =
     array_join sep xs @ (if xs = [] then [] else sep) @ elementString x"
  by (induction sep xs rule: array_join.induct) simp_all

text \<open>
  A key that is neither registered nor inherited reads as \<^verbatim>\<open>undefined\<close>, which the
  join renders like the empty template.
\<close>

lemma filterProperty_unknown:
  "fs k = None \<Longrightarrow> objectPrototype k = Undefined \<Longrightarrow>
   elementString (filterProperty (fs(k \<mapsto> [])) key) = elementString (filterProperty fs key)"
  by (simp add: filterProperty_def)

lemma parseFilterObject_unknown:
  "fs k = None \<Longrightarrow> objectPrototype k = Undefined \<Longrightarrow>
   parseFilterObject (fs(k \<mapsto> [])) g = parseFilterObject fs g"
  unfolding parseFilterObject_def
  by (rule array_join_cong_elementString) (simp add: filterProperty_unknown)

lemma filterString_unknown:
  "fs k = None \<Longrightarrow> objectPrototype k = Undefined \<Longrightarrow>
   filterString (fs(k \<mapsto> [])) c = filterString fs c"
  by (cases c) (simp_all add: parseFilterObject_unknown)

lemma parseFilterObject_keys:
  "map fst g = map fst h \<Longrightarrow> parseFilterObject fs g = parseFilterObject fs h"
  by (simp add: parseFilterObject_def)

lemma map_parseFilterObject_keys:
  "map (map fst) gs = map (map fst) hs \<Longrightarrow>
   map (\<lambda>filterObject. Str (parseFilterObject fs filterObject)) gs =
   map (\<lambda>filterObject. Str (parseFilterObject fs filterObject)) hs"
proof (induction gs arbitrary: hs)
  case Nil
  then show ?case by simp
next
  case (Cons g gs)
  then obtain h hs' where hs: "hs = h # hs'" by (cases hs) auto
  with Cons.prems have "map fst g = map fst h" and "map (map fst) gs = map (map fst) hs'"
    by simp_all
  with Cons.IH [of hs'] hs show ?case
    using parseFilterObject_keys [of g h fs] by simp
qed

lemma map_filterProperty_resolved:
  "map fs ks = map Some ts \<Longrightarrow> map (\<lambda>key. filterProperty fs key) ks = map Str ts"
  by (induction ks arbitrary: ts) (auto simp: filterProperty_def)

text \<open>
  The filters object of a new entity has no own property \<^verbatim>\<open>__proto__\<close>, and no
  declaration gives it one. A declaration touches the keys of the specification's table
  for its type and no other key, and on such an object what it leaves under those keys
  does not depend on what was there before.
\<close>

lemma addFilter_no_own_proto:
  "filters e ''__proto__'' = None \<Longrightarrow>
   filters (snd (addFilter X ta opts e)) ''__proto__'' = None"
  by (cases ta; cases "case ta of None \<Rightarrow> NUMBER | Some t \<Rightarrow> t")
     (simp_all add: addFilter_def Let_def filters_setFilter variant_neq_proto)

lemma addFilter_outside:
  "k \<notin> set (spec_variantNames t X) \<Longrightarrow>
   filters (snd (addFilter X (Some t) opts e)) k = filters e k"
  by (cases t) (simp_all add: addFilter_def Let_def filters_setFilter spec_variantNames_def
      variant_neq_proto)

lemma addFilter_inside:
  "k \<in> set (spec_variantNames t X) \<Longrightarrow> filters e ''__proto__'' = None \<Longrightarrow>
   filters (snd (addFilter X (Some t) opts e)) k =
   filters (snd (addFilter X (Some t) opts new_BaseEntity)) k"
  by (cases t) (auto simp add: addFilter_def Let_def filters_setFilter spec_variantNames_def
      variant_neq_proto new_BaseEntity_def)

lemma dom_addFilter:
  "dom (filters (snd (addFilter X (Some t) opts e))) =
     (set (spec_variantNames t X) - {''__proto__''}) \<union> dom (filters e)"
  by (cases t)
     (simp_all add: addFilter_def Let_def dom_setFilter spec_variantNames_def
        variant_neq_proto Un_assoc insert_Diff_if insert_commute)

subsection \<open>Criteria with a key that is not registered\<close>

text \<open>
  Claim C1, as amended. \<^verbatim>\<open>parseFilters\<close> has no error for a key that is missing from
  the filter map. A key that is not registered, and is not a name the filters object
  inherits from \<^verbatim>\<open>Object.prototype\<close>, is compiled exactly as a key registered with the
  empty template: for every adapter and every criteria the result is the one obtained
  from the filter map extended by that key with the empty string. In particular such a
  key at the end of a group contributes the empty string while the separator in front of
  it is still emitted, and for a group with other keys the method calls the adapter with
  that dangling clause and the criteria and returns \<^verbatim>\<open>WHERE \<close> followed by the
  adapter's result, or throws what the adapter throws; for a group of that key alone it
  returns the empty string.
\<close>

theorem parseFilters_unknown_key:
  assumes "k \<notin> dom (filters e)" and "objectPrototype k = Undefined"
  shows "parseFilters pqc e c = parseFilters pqc (e\<lparr>filters := (filters e)(k \<mapsto> [])\<rparr>) c \<and>
         parseFilterObject (filters e) (g @ [(k, v)]) =
           parseFilterObject (filters e) g @ (if g = [] then [] else '' AND '') \<and>
         parseFilters pqc e (Group (g @ [(k, v)])) =
           (if g = [] then Inr []
            else case pqc (parseFilterObject (filters e) g @ '' AND '') (Group (g @ [(k, v)])) of
                   Inl exception \<Rightarrow> Inl exception
                 | Inr fragment \<Rightarrow> Inr (''WHERE '' @ fragment))"
proof -
  from assms have none: "filters e k = None" by (simp add: domIff)
  have same: "parseFilters pqc e c = parseFilters pqc (e\<lparr>filters := (filters e)(k \<mapsto> [])\<rparr>) c"
    using none assms(2) by (simp add: parseFilters_def filterString_unknown)
  have "elementString (filterProperty (filters e) k) = []"
    using none assms(2) by (simp add: filterProperty_def)
  then have clause: "parseFilterObject (filters e) (g @ [(k, v)]) =
           parseFilterObject (filters e) g @ (if g = [] then [] else '' AND '')"
    using array_join_snoc [of "'' AND ''" "map (\<lambda>key. filterProperty (filters e) key) (map fst g)"
        "filterProperty (filters e) k"]
    by (simp add: parseFilterObject_def)
  have "parseFilters pqc e (Group (g @ [(k, v)])) =
           (if g = [] then Inr []
            else case pqc (parseFilterObject (filters e) g @ '' AND '') (Group (g @ [(k, v)])) of
                   Inl exception \<Rightarrow> Inl exception
                 | Inr fragment \<Rightarrow> Inr (''WHERE '' @ fragment))"
  proof (cases "g = []")
    case True
    with clause show ?thesis by (simp add: parseFilters_def parseFilterObject_def)
  next
    case False
    with clause show ?thesis by (simp add: parseFilters_def)
  qed
  with same clause show ?thesis by simp
qed

theorem parseFilters_unknown_key_witness:
  \<open>''y'' \<notin> dom (filters (snd (addFilter ''x'' (Some BOOLEAN) noOptions new_BaseEntity))) \<and>
   objectPrototype ''y'' = Undefined \<and>
   parseFilterObject (filters (snd (addFilter ''x'' (Some BOOLEAN) noOptions new_BaseEntity)))
       ([(''x'', JBool True)] @ [(''y'', JNum 1)])
     = ''"x" = ${x} AND '' \<and>
   parseFilters (\<lambda>s c. Inr s :: unit + string)
       (snd (addFilter ''x'' (Some BOOLEAN) noOptions new_BaseEntity))
       (Group ([(''x'', JBool True)] @ [(''y'', JNum 1)]))
     = Inr ''WHERE "x" = ${x} AND ''\<close>
  using parseFilters_unknown_key [of "''y''"
      "snd (addFilter ''x'' (Some BOOLEAN) noOptions new_BaseEntity)"
      "\<lambda>s c. Inr s :: unit + string"
      "Group [(''x'', JBool True), (''y'', JNum 1)]" "[(''x'', JBool True)]" "JNum 1"]
  by (simp add: addFilter_eval)

text \<open>
  Claim C1 as stated fails: with the single BOOLEAN filter \<open>x\<close> declared, the criteria
  \<^verbatim>\<open>{x: true, y: 1}\<close> contain the undeclared key \<open>y\<close>, and the method still builds a
  clause, the dangling \<^verbatim>\<open>"x" = ${x} AND \<close>, which it hands to the adapter. On a new
  entity the undeclared key \<^verbatim>\<open>constructor\<close> even resolves, to the function inherited
  from \<^verbatim>\<open>Object.prototype\<close>, whose text becomes the clause.
\<close>

theorem unknown_key_counterexample:
  \<open>''y'' \<notin> dom (filters (snd (addFilter ''x'' (Some BOOLEAN) noOptions new_BaseEntity))) \<and>
   filterString (filters (snd (addFilter ''x'' (Some BOOLEAN) noOptions new_BaseEntity)))
       (Group [(''x'', JBool True), (''y'', JNum 1)])
     = Some ''"x" = ${x} AND '' \<and>
   ''constructor'' \<notin> dom (filters new_BaseEntity) \<and>
   filterString (filters new_BaseEntity) (Group [(''constructor'', JNum 1)])
     = Some ''function Object() { [native code] }''\<close>
  by (simp add: addFilter_eval)

subsection \<open>Values stay out of the clause\<close>

text \<open>
  Claim C2. Two criteria of the same shape, whatever their values, compile to the same
  clause string against any filter map: the string is built from what the keys resolve
  to alone, and no value of the criteria enters it.
\<close>

theorem filterString_ignores_values:
  "sameShape c d \<Longrightarrow> filterString fs c = filterString fs d"
proof (induction c d rule: sameShape.induct)
  case (1 g h)
  then show ?case using parseFilterObject_keys [of g h fs] by simp
next
  case (2 gs hs)
  then show ?case using map_parseFilterObject_keys [of gs hs fs] by simp
qed simp_all

theorem filterString_ignores_values_witness:
  \<open>sameShape (GroupList [[(''id'', JNum 1), (''name_like'', JStr ''a%'')], [(''id_gt'', JNum 7)]])
             (GroupList [[(''id'', JNum 2), (''name_like'', JStr ''x OR 1=1'')],
                         [(''id_gt'', JArr [JNull])]]) \<and>
   filterString (filters (snd (addFilter ''id'' None noOptions new_BaseEntity)))
       (GroupList [[(''id'', JNum 1), (''name_like'', JStr ''a%'')], [(''id_gt'', JNum 7)]])
     = filterString (filters (snd (addFilter ''id'' None noOptions new_BaseEntity)))
         (GroupList [[(''id'', JNum 2), (''name_like'', JStr ''x OR 1=1'')],
                     [(''id_gt'', JArr [JNull])]])\<close>
  using filterString_ignores_values
    [of "GroupList [[(''id'', JNum 1), (''name_like'', JStr ''a%'')], [(''id_gt'', JNum 7)]]"
        "GroupList [[(''id'', JNum 2), (''name_like'', JStr ''x OR 1=1'')],
                    [(''id_gt'', JArr [JNull])]]"
        "filters (snd (addFilter ''id'' None noOptions new_BaseEntity))"]
  by simp

subsection \<open>A list of groups\<close>

text \<open>
  Claim C3, as amended. The clause of a list of groups is the groups' own AND-joined
  clauses in list order, separated by \<^verbatim>\<open> OR \<close> and not wrapped in parentheses: the
  clause of the first group, followed for each further group by one separator and that
  group's clause, so \<open>N\<close> groups are held apart by \<open>N - 1\<close> separators; the empty list
  compiles to the empty string.
\<close>

theorem groupList_joined_by_OR:
  "filterString fs (GroupList []) = Some [] \<and>
   filterString fs (GroupList (g # gs)) =
     Some (parseFilterObject fs g @ concat (map (\<lambda>h. '' OR '' @ parseFilterObject fs h) gs))"
  using array_join_Str [of "'' OR ''" "parseFilterObject fs g" "map (parseFilterObject fs) gs"]
  by (simp add: comp_def)

text \<open>
  Claim C3 as stated fails: two groups over the BOOLEAN filter \<open>x\<close> compile to
  \<^verbatim>\<open>"x" = ${x} OR "x" = ${x}\<close>, which is not the parenthesised clause of the
  specification.
\<close>

theorem groupList_parentheses_counterexample:
  \<open>filterString (filters (snd (addFilter ''x'' (Some BOOLEAN) noOptions new_BaseEntity)))
       (GroupList [[(''x'', JBool True)], [(''x'', JBool False)]])
     = Some ''"x" = ${x} OR "x" = ${x}'' \<and>
   spec_groupListClause
       [parseFilterObject (filters (snd (addFilter ''x'' (Some BOOLEAN) noOptions new_BaseEntity)))
          [(''x'', JBool True)],
        parseFilterObject (filters (snd (addFilter ''x'' (Some BOOLEAN) noOptions new_BaseEntity)))
          [(''x'', JBool False)]]
     = ''("x" = ${x}) OR ("x" = ${x})'' \<and>
   filterString (filters (snd (addFilter ''x'' (Some BOOLEAN) noOptions new_BaseEntity)))
       (GroupList [[(''x'', JBool True)], [(''x'', JBool False)]])
     \<noteq> Some (spec_groupListClause
         [parseFilterObject (filters (snd (addFilter ''x'' (Some BOOLEAN) noOptions new_BaseEntity)))
            [(''x'', JBool True)],
          parseFilterObject (filters (snd (addFilter ''x'' (Some BOOLEAN) noOptions new_BaseEntity)))
            [(''x'', JBool False)]])\<close>
  by (simp add: addFilter_eval spec_groupListClause_def)

subsection \<open>Declaring a name twice\<close>

text \<open>
  Claim C4, as amended. On an entity whose filters object has no own property
  \<^verbatim>\<open>__proto__\<close>, as is the case for every entity built by the constructor and
  \<^verbatim>\<open>addFilter\<close>: after a second declaration of the same name, the keys of the second
  type's variant table hold what the second declaration writes (last write wins,
  whatever was stored before), and every other key, among them the variants of the first
  type that the second type does not have, is as the first declaration left it: a
  declaration removes nothing.
\<close>

theorem addFilter_twice:
  "''__proto__'' \<notin> dom (filters e) \<Longrightarrow>
   filters (snd (addFilter X (Some t2) opts2 (snd (addFilter X (Some t1) opts1 e)))) k =
     (if k \<in> set (spec_variantNames t2 X)
      then filters (snd (addFilter X (Some t2) opts2 new_BaseEntity)) k
      else filters (snd (addFilter X (Some t1) opts1 e)) k)"
  using addFilter_inside [of k t2 X "snd (addFilter X (Some t1) opts1 e)" opts2]
        addFilter_outside [of k t2 X opts2 "snd (addFilter X (Some t1) opts1 e)"]
        addFilter_no_own_proto [of e X "Some t1" opts1]
  by (simp add: domIff)

theorem addFilter_twice_witness:
  \<open>''__proto__'' \<notin> dom (filters new_BaseEntity) \<and>
   filters (snd (addFilter ''x'' (Some BOOLEAN) \<lparr>realName = Some ''y''\<rparr>
                (snd (addFilter ''x'' (Some NUMBER) noOptions new_BaseEntity)))) ''x_eql''
     = Some ''"y" = ${x}'' \<and>
   filters (snd (addFilter ''x'' (Some BOOLEAN) \<lparr>realName = Some ''y''\<rparr>
                (snd (addFilter ''x'' (Some NUMBER) noOptions new_BaseEntity)))) ''x_lt''
     = Some ''"x" < ${x}''\<close>
  using addFilter_twice [of new_BaseEntity "''x''" BOOLEAN "\<lparr>realName = Some ''y''\<rparr>" NUMBER
      noOptions "''x_eql''"]
    addFilter_twice [of new_BaseEntity "''x''" BOOLEAN "\<lparr>realName = Some ''y''\<rparr>" NUMBER
      noOptions "''x_lt''"]
  by (simp add: addFilter_eval spec_variantNames_def)

text \<open>
  Claim C4 as stated fails: declaring \<open>x\<close> as NUMBER and then as BOOLEAN leaves the
  NUMBER variant \<open>x_gt\<close> registered, so the keys for \<open>x\<close> are not the BOOLEAN set.
\<close>

theorem addFilter_twice_counterexample:
  \<open>filters (snd (addFilter ''x'' (Some BOOLEAN) noOptions
                (snd (addFilter ''x'' (Some NUMBER) noOptions new_BaseEntity)))) ''x_gt''
     = Some ''"x" > ${x}'' \<and>
   ''x_gt'' \<notin> set (spec_variantNames BOOLEAN ''x'') \<and>
   dom (filters (snd (addFilter ''x'' (Some BOOLEAN) noOptions
                (snd (addFilter ''x'' (Some NUMBER) noOptions new_BaseEntity)))))
     \<noteq> set (spec_variantNames BOOLEAN ''x'')\<close>
proof -
  have a: \<open>filters (snd (addFilter ''x'' (Some BOOLEAN) noOptions
                (snd (addFilter ''x'' (Some NUMBER) noOptions new_BaseEntity)))) ''x_gt''
     = Some ''"x" > ${x}''\<close>
    by (simp add: addFilter_eval)
  have b: "''x_gt'' \<notin> set (spec_variantNames BOOLEAN ''x'')"
    by (simp add: spec_variantNames_def)
  from a have "''x_gt'' \<in> dom (filters (snd (addFilter ''x'' (Some BOOLEAN) noOptions
                (snd (addFilter ''x'' (Some NUMBER) noOptions new_BaseEntity)))))"
    by (rule domI)
  with b have "dom (filters (snd (addFilter ''x'' (Some BOOLEAN) noOptions
                (snd (addFilter ''x'' (Some NUMBER) noOptions new_BaseEntity)))))
     \<noteq> set (spec_variantNames BOOLEAN ''x'')" by metis
  with a b show ?thesis by simp
qed

subsection \<open>Unsupported filter types\<close>

text \<open>
  Claim C5. For every entity, filter name and options, a declaration whose type is none of
  BOOLEAN, TEXT, NUMBER and BINARY makes \<^verbatim>\<open>addFilter\<close> throw
  \<^verbatim>\<open>NonSupportedFilterTypeError\<close> carrying that type, and the entity, hence its
  filter map, is exactly the one the call started from: no variant has been inserted.
\<close>

theorem addFilter_unsupported:
  "t \<notin> {BOOLEAN, TEXT, NUMBER, BINARY} \<Longrightarrow>
   addFilter filterName (Some t) opts e = (Inl (NonSupportedFilterTypeError t), e)"
  by (cases t) (simp_all add: addFilter_def)

theorem addFilter_unsupported_witness:
  "OtherType ''DATE'' \<notin> {BOOLEAN, TEXT, NUMBER, BINARY} \<and>
   addFilter ''status'' (Some (OtherType ''DATE'')) noOptions new_BaseEntity
     = (Inl (NonSupportedFilterTypeError (OtherType ''DATE'')), new_BaseEntity)"
  using addFilter_unsupported [of "OtherType ''DATE''" "''status''" noOptions new_BaseEntity]
  by simp

subsection \<open>The variants of each type\<close>

text \<open>
  Claim C6, evaluated on the code. Whatever the filter name \<open>X\<close>, the options and the
  entity, a declaration adds to the registered keys the names fixed by its type, which
  are pairwise different (three for BOOLEAN and BINARY, five for TEXT, eight for NUMBER),
  except the name \<^verbatim>\<open>__proto__\<close>: the assignment to that key stores nothing. The
  suffixed BINARY templates pass their bound parameter through \<^verbatim>\<open>DECODE(..., 'hex')\<close>.
  So the claim holds for every filter name but one: a TEXT filter named \<^verbatim>\<open>__proto__\<close>
  on a new entity registers four names, not five, its base variant being lost.
\<close>

theorem addFilter_variant_names:
  \<open>dom (filters (snd (addFilter X (Some BOOLEAN) opts e))) =
     ({X, X @ ''_eql'', X @ ''_neql''} - {''__proto__''}) \<union> dom (filters e) \<and>
   card {X, X @ ''_eql'', X @ ''_neql''} = 3 \<and>
   dom (filters (snd (addFilter X (Some TEXT) opts e))) =
     ({X, X @ ''_eql'', X @ ''_neql'', X @ ''_in'', X @ ''_like''} - {''__proto__''})
       \<union> dom (filters e) \<and>
   card {X, X @ ''_eql'', X @ ''_neql'', X @ ''_in'', X @ ''_like''} = 5 \<and>
   dom (filters (snd (addFilter X (Some NUMBER) opts e))) =
     ({X, X @ ''_eql'', X @ ''_neql'', X @ ''_gt'', X @ ''_gte'', X @ ''_lt'', X @ ''_lte'',
       X @ ''_in''} - {''__proto__''}) \<union> dom (filters e) \<and>
   card {X, X @ ''_eql'', X @ ''_neql'', X @ ''_gt'', X @ ''_gte'', X @ ''_lt'', X @ ''_lte'',
         X @ ''_in''} = 8 \<and>
   dom (filters (snd (addFilter X (Some BINARY) opts e))) =
     ({X, X @ ''_eql'', X @ ''_neql''} - {''__proto__''}) \<union> dom (filters e) \<and>
   filters (snd (addFilter X (Some BINARY) opts e)) (X @ ''_eql'') =
     Some (''"'' @ fieldNameOf opts X @ ''" = DECODE(${'' @ X @ ''}, 'hex')'') \<and>
   filters (snd (addFilter X (Some BINARY) opts e)) (X @ ''_neql'') =
     Some (''"'' @ fieldNameOf opts X @ ''" <> DECODE(${'' @ X @ ''}, 'hex')'') \<and>
   dom (filters (snd (addFilter ''__proto__'' (Some TEXT) noOptions new_BaseEntity))) =
     {''__proto___eql'', ''__proto___neql'', ''__proto___in'', ''__proto___like''} \<and>
   card (dom (filters (snd (addFilter ''__proto__'' (Some TEXT) noOptions new_BaseEntity)))) = 4\<close>
proof -
  have names: "card {X, X @ ''_eql'', X @ ''_neql''} = 3"
    "card {X, X @ ''_eql'', X @ ''_neql'', X @ ''_in'', X @ ''_like''} = 5"
    "card {X, X @ ''_eql'', X @ ''_neql'', X @ ''_gt'', X @ ''_gte'', X @ ''_lt'', X @ ''_lte'',
         X @ ''_in''} = 8"
    by simp_all
  have binary: \<open>filters (snd (addFilter X (Some BINARY) opts e)) (X @ ''_eql'') =
     Some (''"'' @ fieldNameOf opts X @ ''" = DECODE(${'' @ X @ ''}, 'hex')'')\<close>
    \<open>filters (snd (addFilter X (Some BINARY) opts e)) (X @ ''_neql'') =
     Some (''"'' @ fieldNameOf opts X @ ''" <> DECODE(${'' @ X @ ''}, 'hex')'')\<close>
    by (simp_all add: addFilter_def Let_def filters_setFilter_plain variant_neq_proto)
  have failing: "dom (filters (snd (addFilter ''__proto__'' (Some TEXT) noOptions new_BaseEntity))) =
     {''__proto___eql'', ''__proto___neql'', ''__proto___in'', ''__proto___like''}"
    using dom_addFilter [of "''__proto__''" TEXT noOptions new_BaseEntity]
    by (simp add: spec_variantNames_def new_BaseEntity_def insert_commute)
  have "card {''__proto___eql'', ''__proto___neql'', ''__proto___in'', ''__proto___like''} = 4"
    by simp
  with failing have failing_card:
    "card (dom (filters (snd (addFilter ''__proto__'' (Some TEXT) noOptions new_BaseEntity)))) = 4"
    by simp
  show ?thesis
    using dom_addFilter [of X BOOLEAN opts e] dom_addFilter [of X TEXT opts e]
      dom_addFilter [of X NUMBER opts e] dom_addFilter [of X BINARY opts e]
      names binary failing failing_card
    by (simp only: spec_variantNames_def filterType.case list.set simp_thms)
qed

subsection \<open>The placeholder of the equality variants\<close>

text \<open>
  Claim C7, evaluated on the code. For the NUMBER filter \<open>x\<close> declared with the real
  column \<open>y\<close>, the templates of \<open>x_eql\<close> and \<open>x_neql\<close> do compare the real column, but
  their placeholder is \<^verbatim>\<open>${x}\<close>, the name of the base filter and not of the variant,
  whereas the template of \<open>x_in\<close> of the same declaration names its placeholder after the
  variant.
\<close>

theorem eql_placeholder_is_base_name:
  \<open>filters (snd (addFilter ''x'' (Some NUMBER) \<lparr>realName = Some ''y''\<rparr> new_BaseEntity)) ''x_eql''
     = Some ''"y" = ${x}'' \<and>
   filters (snd (addFilter ''x'' (Some NUMBER) \<lparr>realName = Some ''y''\<rparr> new_BaseEntity)) ''x_neql''
     = Some ''"y" <> ${x}'' \<and>
   filters (snd (addFilter ''x'' (Some NUMBER) \<lparr>realName = Some ''y''\<rparr> new_BaseEntity)) ''x_in''
     = Some ''"x" IN (${x_in:csv})''\<close>
  by (simp add: addFilter_eval)

subsection \<open>A single group\<close>

text \<open>
  Claim C8. When every key of a group resolves in the filter map, to the templates \<open>ts\<close>
  in the order of the keys, the clause of the group is the first template followed, for
  each further template, by \<^verbatim>\<open> AND \<close> and that template; the empty group compiles to
  the empty string. In particular, once \<open>X\<close> is declared as a NUMBER filter, the group
  \<^verbatim>\<open>{X_gte: v1, X_lte: v2}\<close> compiles to the \<open>X_gte\<close> condition, \<^verbatim>\<open> AND \<close>, the
  \<open>X_lte\<close> condition.
\<close>

theorem group_joined_by_AND:
  \<open>(map fs (map fst g) = map Some ts \<longrightarrow>
      filterString fs (Group g) =
        Some (case ts of [] \<Rightarrow> [] | t # ts' \<Rightarrow> t @ concat (map (\<lambda>u. '' AND '' @ u) ts'))) \<and>
   filterString (filters (snd (addFilter X (Some NUMBER) opts e)))
       (Group [(X @ ''_gte'', v1), (X @ ''_lte'', v2)])
     = Some (''"'' @ fieldNameOf opts X @ ''" >= ${'' @ X @ ''} AND "''
             @ fieldNameOf opts X @ ''" <= ${'' @ X @ ''}'')\<close>
proof -
  have "filterString fs (Group g) =
        Some (case ts of [] \<Rightarrow> [] | t # ts' \<Rightarrow> t @ concat (map (\<lambda>u. '' AND '' @ u) ts'))"
    if "map fs (map fst g) = map Some ts"
  proof (cases ts)
    case Nil
    with that show ?thesis by (simp add: parseFilterObject_def)
  next
    case (Cons t ts')
    from that have "parseFilterObject fs g = array_join '' AND '' (map Str ts)"
      using map_filterProperty_resolved [of fs "map fst g" ts]
      by (simp add: parseFilterObject_def)
    also have "\<dots> = t @ concat (map (\<lambda>u. '' AND '' @ u) ts')"
      unfolding Cons by (rule array_join_Str)
    finally show ?thesis unfolding Cons by (simp only: filterString.simps list.case)
  qed
  moreover have \<open>filterString (filters (snd (addFilter X (Some NUMBER) opts e)))
       (Group [(X @ ''_gte'', v1), (X @ ''_lte'', v2)])
     = Some (''"'' @ fieldNameOf opts X @ ''" >= ${'' @ X @ ''} AND "''
             @ fieldNameOf opts X @ ''" <= ${'' @ X @ ''}'')\<close>
    by (simp add: addFilter_def Let_def filters_setFilter parseFilterObject_def
        filterProperty_def variant_neq_proto)
  ultimately show ?thesis by blast
qed

theorem group_joined_by_AND_witness:
  \<open>map (filters (snd (addFilter ''h'' (Some NUMBER) noOptions new_BaseEntity)))
       (map fst [(''h_gte'', JNum 1), (''h_lte'', JNum 9), (''h'', JNum 5)])
     = map Some [''"h" >= ${h}'', ''"h" <= ${h}'', ''"h" = ${h}''] \<and>
   filterString (filters (snd (addFilter ''h'' (Some NUMBER) noOptions new_BaseEntity)))
       (Group [(''h_gte'', JNum 1), (''h_lte'', JNum 9), (''h'', JNum 5)])
     = Some ''"h" >= ${h} AND "h" <= ${h} AND "h" = ${h}''\<close>
  using group_joined_by_AND
    [of "filters (snd (addFilter ''h'' (Some NUMBER) noOptions new_BaseEntity))"
        "[(''h_gte'', JNum 1), (''h_lte'', JNum 9), (''h'', JNum 5)]"
        "[''\"h\" >= ${h}'', ''\"h\" <= ${h}'', ''\"h\" = ${h}'']"]
  by (simp add: addFilter_eval)

subsection \<open>The base variant and the equality variant\<close>

text \<open>
  Claim C9, evaluated on the code. For each of the four supported types a declaration
  of \<open>X\<close> stores one and the same template under \<open>X_eql\<close> and under \<open>X\<close>, except that
  under the name \<^verbatim>\<open>__proto__\<close> nothing is stored when the filters object has no own
  property of that name. So the claim holds for every filter name but one: after a TEXT
  filter named \<^verbatim>\<open>__proto__\<close> is declared on a new entity, its \<open>_eql\<close> variant has a
  template and its base variant has none; reading the base key yields the prototype
  object instead.
\<close>

theorem base_variant_is_eql:
  \<open>filters (snd (addFilter X (Some BOOLEAN) opts e)) (X @ ''_eql'') =
     Some (''"'' @ fieldNameOf opts X @ ''" = ${'' @ X @ ''}'') \<and>
   filters (snd (addFilter X (Some BOOLEAN) opts e)) X =
     (if X = ''__proto__'' \<and> filters e X = None then None
      else Some (''"'' @ fieldNameOf opts X @ ''" = ${'' @ X @ ''}'')) \<and>
   filters (snd (addFilter X (Some TEXT) opts e)) (X @ ''_eql'') =
     Some (''"'' @ fieldNameOf opts X @ ''" = ${'' @ X @ ''}'') \<and>
   filters (snd (addFilter X (Some TEXT) opts e)) X =
     (if X = ''__proto__'' \<and> filters e X = None then None
      else Some (''"'' @ fieldNameOf opts X @ ''" = ${'' @ X @ ''}'')) \<and>
   filters (snd (addFilter X (Some NUMBER) opts e)) (X @ ''_eql'') =
     Some (''"'' @ fieldNameOf opts X @ ''" = ${'' @ X @ ''}'') \<and>
   filters (snd (addFilter X (Some NUMBER) opts e)) X =
     (if X = ''__proto__'' \<and> filters e X = None then None
      else Some (''"'' @ fieldNameOf opts X @ ''" = ${'' @ X @ ''}'')) \<and>
   filters (snd (addFilter X (Some BINARY) opts e)) (X @ ''_eql'') =
     Some (''"'' @ fieldNameOf opts X @ ''" = DECODE(${'' @ X @ ''}, 'hex')'') \<and>
   filters (snd (addFilter X (Some BINARY) opts e)) X =
     (if X = ''__proto__'' \<and> filters e X = None then None
      else Some (''"'' @ fieldNameOf opts X @ ''" = DECODE(${'' @ X @ ''}, 'hex')'')) \<and>
   filters (snd (addFilter ''__proto__'' (Some TEXT) noOptions new_BaseEntity)) ''__proto___eql''
     = Some ''"__proto__" = ${__proto__}'' \<and>
   filters (snd (addFilter ''__proto__'' (Some TEXT) noOptions new_BaseEntity)) ''__proto__''
     = None \<and>
   filterProperty (filters (snd (addFilter ''__proto__'' (Some TEXT) noOptions new_BaseEntity)))
       ''__proto__''
     = ObjectPrototype\<close>
proof -
  have general:
    \<open>filters (snd (addFilter X (Some BOOLEAN) opts e)) (X @ ''_eql'') =
       Some (''"'' @ fieldNameOf opts X @ ''" = ${'' @ X @ ''}'')\<close>
    \<open>filters (snd (addFilter X (Some BOOLEAN) opts e)) X =
       (if X = ''__proto__'' \<and> filters e X = None then None
        else Some (''"'' @ fieldNameOf opts X @ ''" = ${'' @ X @ ''}''))\<close>
    \<open>filters (snd (addFilter X (Some TEXT) opts e)) (X @ ''_eql'') =
       Some (''"'' @ fieldNameOf opts X @ ''" = ${'' @ X @ ''}'')\<close>
    \<open>filters (snd (addFilter X (Some TEXT) opts e)) X =
       (if X = ''__proto__'' \<and> filters e X = None then None
        else Some (''"'' @ fieldNameOf opts X @ ''" = ${'' @ X @ ''}''))\<close>
    \<open>filters (snd (addFilter X (Some NUMBER) opts e)) (X @ ''_eql'') =
       Some (''"'' @ fieldNameOf opts X @ ''" = ${'' @ X @ ''}'')\<close>
    \<open>filters (snd (addFilter X (Some NUMBER) opts e)) X =
       (if X = ''__proto__'' \<and> filters e X = None then None
        else Some (''"'' @ fieldNameOf opts X @ ''" = ${'' @ X @ ''}''))\<close>
    \<open>filters (snd (addFilter X (Some BINARY) opts e)) (X @ ''_eql'') =
       Some (''"'' @ fieldNameOf opts X @ ''" = DECODE(${'' @ X @ ''}, 'hex')'')\<close>
    \<open>filters (snd (addFilter X (Some BINARY) opts e)) X =
       (if X = ''__proto__'' \<and> filters e X = None then None
        else Some (''"'' @ fieldNameOf opts X @ ''" = DECODE(${'' @ X @ ''}, 'hex')''))\<close>
    by (auto simp add: addFilter_def Let_def filters_setFilter_plain variant_neq_proto
        base_key_after_setFilter)
  have failing:
    \<open>filters (snd (addFilter ''__proto__'' (Some TEXT) noOptions new_BaseEntity)) ''__proto___eql''
       = Some ''"__proto__" = ${__proto__}''\<close>
    \<open>filters (snd (addFilter ''__proto__'' (Some TEXT) noOptions new_BaseEntity)) ''__proto__''
       = None\<close>
    \<open>filterProperty (filters (snd (addFilter ''__proto__'' (Some TEXT) noOptions new_BaseEntity)))
         ''__proto__''
       = ObjectPrototype\<close>
    by (simp_all add: addFilter_def Let_def filters_setFilter_plain filters_setFilter_proto
        fieldNameOf_def noOptions_def new_BaseEntity_def filterProperty_def objectPrototype_def)
  from general failing show ?thesis by (simp only: simp_thms)
qed

subsection \<open>The default filter type\<close>

text \<open>
  Claim C10, evaluated on the code. A call of \<^verbatim>\<open>addFilter\<close> that omits the type
  behaves in every respect as the call with type NUMBER: it succeeds and the keys it
  writes are the eight NUMBER variants of the filter name, which are pairwise different,
  except the name \<^verbatim>\<open>__proto__\<close>. So on a new entity a filter named \<^verbatim>\<open>__proto__\<close>
  declared without a type registers seven names, not eight.
\<close>

theorem addFilter_default_NUMBER:
  "addFilter X None opts e = addFilter X (Some NUMBER) opts e \<and>
   fst (addFilter X None opts e) = Inr () \<and>
   dom (filters (snd (addFilter X None opts e))) =
     ({X, X @ ''_eql'', X @ ''_neql'', X @ ''_gt'', X @ ''_gte'', X @ ''_lt'', X @ ''_lte'',
       X @ ''_in''} - {''__proto__''}) \<union> dom (filters e) \<and>
   card {X, X @ ''_eql'', X @ ''_neql'', X @ ''_gt'', X @ ''_gte'', X @ ''_lt'', X @ ''_lte'',
         X @ ''_in''} = 8 \<and>
   dom (filters (snd (addFilter ''__proto__'' None noOptions new_BaseEntity))) =
     {''__proto___eql'', ''__proto___neql'', ''__proto___gt'', ''__proto___gte'',
      ''__proto___lt'', ''__proto___lte'', ''__proto___in''} \<and>
   card (dom (filters (snd (addFilter ''__proto__'' None noOptions new_BaseEntity)))) = 7"
proof -
  have eq: "addFilter X None opts e = addFilter X (Some NUMBER) opts e" for X opts e
    by (simp add: addFilter_def)
  have ok: "fst (addFilter X None opts e) = Inr ()"
    by (simp add: addFilter_def Let_def)
  have names: "card {X, X @ ''_eql'', X @ ''_neql'', X @ ''_gt'', X @ ''_gte'', X @ ''_lt'',
      X @ ''_lte'', X @ ''_in''} = 8"
    by simp
  have general: "dom (filters (snd (addFilter X None opts e))) =
     ({X, X @ ''_eql'', X @ ''_neql'', X @ ''_gt'', X @ ''_gte'', X @ ''_lt'', X @ ''_lte'',
       X @ ''_in''} - {''__proto__''}) \<union> dom (filters e)"
    using dom_addFilter [of X NUMBER opts e]
    by (simp only: eq spec_variantNames_def filterType.case list.set)
  have failing: "dom (filters (snd (addFilter ''__proto__'' None noOptions new_BaseEntity))) =
     {''__proto___eql'', ''__proto___neql'', ''__proto___gt'', ''__proto___gte'',
      ''__proto___lt'', ''__proto___lte'', ''__proto___in''}"
    using dom_addFilter [of "''__proto__''" NUMBER noOptions new_BaseEntity]
    by (simp add: eq spec_variantNames_def new_BaseEntity_def insert_commute)
  have "card {''__proto___eql'', ''__proto___neql'', ''__proto___gt'', ''__proto___gte'',
      ''__proto___lt'', ''__proto___lte'', ''__proto___in''} = 7"
    by simp
  with failing
  have "card (dom (filters (snd (addFilter ''__proto__'' None noOptions new_BaseEntity)))) = 7"
    by simp
  with eq [of X opts e] ok names general failing show ?thesis by (simp only: simp_thms)
qed

end
